theory Spec2Isabelle
  imports Complex_Main "HOL-Library.AList"
begin

section \<open>Values\<close>

text \<open>
  The endpoints of \<^verbatim>\<open>api/main.py\<close> return Python values that FastAPI serialises as JSON:
  \<^verbatim>\<open>None\<close>, numbers, strings, lists and dictionaries. A dictionary is an association list
  in the order in which the source writes its keys.

  Numbers are the exact values of the database columns (PostgreSQL \<^verbatim>\<open>NUMERIC\<close> and integer
  columns hold exact decimals), so they are modelled as rationals, and sums and the quotients
  of the abundance endpoint are exact. The tables of the measurements are not declared in the
  repository, so the number type of their columns, and with it the arithmetic in which Python
  rounds a quotient, is not known; the shape endpoint takes that operation as a parameter.
  A column value is \<open>None\<close> where the database holds \<^verbatim>\<open>NULL\<close>.
\<close>

datatype json =
    JNull
  | JBool bool
  | JNum rat
  | JStr string
  | JArr "json list"
  | JObj "(string \<times> json) list"

text \<open>Python's truth value of an object, as \<^verbatim>\<open>not result\<close> and \<^verbatim>\<open>x or 0\<close> test it.\<close>

fun truthy :: "json \<Rightarrow> bool" where
  "truthy JNull = False"
| "truthy (JBool b) = b"
| "truthy (JNum x) = (x \<noteq> 0)"
| "truthy (JStr s) = (s \<noteq> [])"
| "truthy (JArr xs) = (xs \<noteq> [])"
| "truthy (JObj kvs) = (kvs \<noteq> [])"

text \<open>A column value as the Python value the database driver hands over.\<close>

definition num_json :: "rat option \<Rightarrow> json" where
  "num_json v = (case v of None \<Rightarrow> JNull | Some x \<Rightarrow> JNum x)"


definition str_json :: "string option \<Rightarrow> json" where
  "str_json v = (case v of None \<Rightarrow> JNull | Some s \<Rightarrow> JStr s)"

text \<open>Reading a response: the value under a key, the value under a path of keys, and the
  list under \<^verbatim>\<open>"points"\<close>.\<close>

fun obj_get :: "json \<Rightarrow> string \<Rightarrow> json option" where
  "obj_get (JObj kvs) k = map_of kvs k"
| "obj_get _ k = None"

fun json_path :: "json \<Rightarrow> string list \<Rightarrow> json option" where
  "json_path j [] = Some j"
| "json_path j (k # ks) = (case obj_get j k of None \<Rightarrow> None | Some j' \<Rightarrow> json_path j' ks)"

definition points_of :: "json \<Rightarrow> json list" where
  "points_of resp = (case obj_get resp ''points'' of Some (JArr ps) \<Rightarrow> ps | _ \<Rightarrow> [])"

section \<open>Rows\<close>

text \<open>
  Every query of \<^verbatim>\<open>api/main.py\<close> selects \<^verbatim>\<open>sp.station_code\<close>, \<^verbatim>\<open>sp.latitude\<close> and
  \<^verbatim>\<open>sp.longitude\<close>; the records below extend these three columns with the columns of
  each query. An endpoint is a function of the rows its query returned.
\<close>

record station =
  station_code :: "string option"
  latitude :: "rat option"
  longitude :: "rat option"

record point = station +
  point_id :: int

record abundance_row = point +
  water_abundance :: "rat option"
  sediment_abundance :: "rat option"

record color_row = station +
  w_black :: "rat option"
  w_red :: "rat option"
  w_blue :: "rat option"
  w_yellow :: "rat option"
  w_grey :: "rat option"
  w_white :: "rat option"
  w_green :: "rat option"
  w_orange :: "rat option"
  w_brown :: "rat option"
  w_transparent :: "rat option"
  s_black :: "rat option"
  s_red :: "rat option"
  s_blue :: "rat option"
  s_yellow :: "rat option"
  s_grey :: "rat option"
  s_white :: "rat option"
  s_green :: "rat option"
  s_orange :: "rat option"
  s_brown :: "rat option"
  s_transparent :: "rat option"

record size_row = station +
  w_lt_1mm :: "rat option"
  w_mm_1_to_2_5 :: "rat option"
  w_mm_2_5_to_5 :: "rat option"
  s_lt_1mm :: "rat option"
  s_mm_1_to_2_5 :: "rat option"
  s_mm_2_5_to_5 :: "rat option"

text \<open>The loop \<^verbatim>\<open>points = []; for r in rows: points.append(f(r))\<close> of the endpoints.\<close>

definition append_each :: "('r \<Rightarrow> json) \<Rightarrow> 'r list \<Rightarrow> json list" where
  "append_each f rows = foldl (\<lambda>points r. points @ [f r]) [] rows"

section \<open>Estuary abundance: \<^verbatim>\<open>GET /estuaries/{estuary_name}\<close>\<close>

definition abundance_point :: "abundance_row \<Rightarrow> json" where
  "abundance_point r = JObj
     [(''point_id'', JNum (of_int (point_id r))),
      (''station_code'', str_json (station_code r)),
      (''latitude'', num_json (latitude r)),
      (''longitude'', num_json (longitude r)),
      (''water_abundance'', num_json (water_abundance r)),
      (''sediment_abundance'', num_json (sediment_abundance r))]"

definition get_estuary_data :: "string \<Rightarrow> abundance_row list \<Rightarrow> json" where
  "get_estuary_data estuary_name rows =
     (if rows = [] then JObj [(''error'', JStr ''No points found'')]
      else
        let water_values =
              map (\<lambda>r. the (water_abundance r)) (filter (\<lambda>r. water_abundance r \<noteq> None) rows);
            sediment_values =
              map (\<lambda>r. the (sediment_abundance r)) (filter (\<lambda>r. sediment_abundance r \<noteq> None) rows)
        in JObj
          [(''average_water_abundance'',
              if water_values \<noteq> []
              then JNum (sum_list water_values / of_nat (length water_values)) else JNull),
           (''average_sediment_abundance'',
              if sediment_values \<noteq> []
              then JNum (sum_list sediment_values / of_nat (length sediment_values)) else JNull),
           (''points'', JArr (map abundance_point rows))])"

section \<open>Estuary color: \<^verbatim>\<open>GET /estuaries/{estuary}/color\<close>\<close>

definition color_point :: "color_row \<Rightarrow> json" where
  "color_point r = JObj
     [(''station_code'', str_json (station_code r)),
      (''latitude'', num_json (latitude r)),
      (''longitude'', num_json (longitude r)),
      (''water'', JObj
         [(''black'', num_json (w_black r)),
          (''red'', num_json (w_red r)),
          (''blue'', num_json (w_blue r)),
          (''yellow'', num_json (w_yellow r)),
          (''grey'', num_json (w_grey r)),
          (''white'', num_json (w_white r)),
          (''green'', num_json (w_green r)),
          (''orange'', num_json (w_orange r)),
          (''brown'', num_json (w_brown r)),
          (''transparent'', num_json (w_transparent r))]),
      (''sediment'', JObj
         [(''black'', num_json (s_black r)),
          (''red'', num_json (s_red r)),
          (''blue'', num_json (s_blue r)),
          (''yellow'', num_json (s_yellow r)),
          (''grey'', num_json (s_grey r)),
          (''white'', num_json (s_white r)),
          (''green'', num_json (s_green r)),
          (''orange'', num_json (s_orange r)),
          (''brown'', num_json (s_brown r)),
          (''transparent'', num_json (s_transparent r))])]"

definition get_estuary_color :: "string \<Rightarrow> color_row list \<Rightarrow> json" where
  "get_estuary_color estuary rows =
     JObj [(''estuary'', JStr estuary), (''points'', JArr (append_each color_point rows))]"

section \<open>Estuary size: \<^verbatim>\<open>GET /estuaries/{estuary}/size\<close>\<close>

text \<open>Python's \<^verbatim>\<open>v or 0\<close>: \<^verbatim>\<open>v\<close> when it is truthy, the integer \<^verbatim>\<open>0\<close> otherwise.\<close>

definition or_0 :: "rat option \<Rightarrow> json" where
  "or_0 v = (if truthy (num_json v) then num_json v else JNum 0)"

definition size_point :: "size_row \<Rightarrow> json" where
  "size_point r = JObj
     [(''station_code'', str_json (station_code r)),
      (''latitude'', num_json (latitude r)),
      (''longitude'', num_json (longitude r)),
      (''water'', JObj
         [(''lt_1mm'', or_0 (w_lt_1mm r)),
          (''mm_1_to_2_5'', or_0 (w_mm_1_to_2_5 r)),
          (''mm_2_5_to_5'', or_0 (w_mm_2_5_to_5 r))]),
      (''sediment'', JObj
         [(''lt_1mm'', or_0 (s_lt_1mm r)),
          (''mm_1_to_2_5'', or_0 (s_mm_1_to_2_5 r)),
          (''mm_2_5_to_5'', or_0 (s_mm_2_5_to_5 r))])]"

definition get_size_distribution :: "string \<Rightarrow> size_row list \<Rightarrow> json" where
  "get_size_distribution estuary rows =
     JObj [(''estuary'', JStr estuary), (''points'', JArr (append_each size_point rows))]"

section \<open>Estuary shape: \<^verbatim>\<open>GET /estuaries/{estuary}/shape\<close>\<close>

text \<open>
  The shape endpoint adds column values to running sums. Python raises \<^verbatim>\<open>TypeError\<close> when a
  number and \<^verbatim>\<open>None\<close> are added and \<^verbatim>\<open>KeyError\<close> when a dictionary lacks a key; FastAPI
  turns an exception that leaves the endpoint into a server error, so no response body is
  built. An endpoint that can raise returns \<open>Inl\<close> of the error.
\<close>

datatype error = TypeError | KeyError string

definition and_then :: "error + 'a \<Rightarrow> ('a \<Rightarrow> error + 'b) \<Rightarrow> error + 'b" where
  "and_then m f = (case m of Inl e \<Rightarrow> Inl e | Inr x \<Rightarrow> f x)"

record shape_row = station +
  water_fiber :: "rat option"
  water_fragment :: "rat option"
  water_film :: "rat option"
  water_foam :: "rat option"
  water_pellet :: "rat option"
  sediment_fiber :: "rat option"
  sediment_fragment :: "rat option"
  sediment_film :: "rat option"
  sediment_foam :: "rat option"
  sediment_pellet :: "rat option"

text \<open>\<^verbatim>\<open>r[name]\<close> for the ten shape columns of a row mapping, which the loop reads through
  the names \<^verbatim>\<open>f"water_{k}"\<close> and \<^verbatim>\<open>f"sediment_{k}"\<close>.\<close>

definition getitem :: "shape_row \<Rightarrow> string \<Rightarrow> error + rat option" where
  "getitem r name =
     (if name = ''water_fiber'' then Inr (water_fiber r)
      else if name = ''water_fragment'' then Inr (water_fragment r)
      else if name = ''water_film'' then Inr (water_film r)
      else if name = ''water_foam'' then Inr (water_foam r)
      else if name = ''water_pellet'' then Inr (water_pellet r)
      else if name = ''sediment_fiber'' then Inr (sediment_fiber r)
      else if name = ''sediment_fragment'' then Inr (sediment_fragment r)
      else if name = ''sediment_film'' then Inr (sediment_film r)
      else if name = ''sediment_foam'' then Inr (sediment_foam r)
      else if name = ''sediment_pellet'' then Inr (sediment_pellet r)
      else Inl (KeyError name))"

text \<open>The running sums \<^verbatim>\<open>water_sum\<close> and \<^verbatim>\<open>sediment_sum\<close> are dictionaries from a shape
  name to a number.\<close>

type_synonym shape_sums = "(string \<times> rat) list"

definition zero_sums :: shape_sums where
  "zero_sums = [(''fiber'', 0), (''fragment'', 0), (''film'', 0), (''foam'', 0), (''pellet'', 0)]"

definition dict_get :: "shape_sums \<Rightarrow> string \<Rightarrow> error + rat" where
  "dict_get d k = (case map_of d k of None \<Rightarrow> Inl (KeyError k) | Some v \<Rightarrow> Inr v)"

text \<open>\<^verbatim>\<open>acc + v\<close> for a number \<^verbatim>\<open>acc\<close> and a column value \<^verbatim>\<open>v\<close>.\<close>

definition add_value :: "rat \<Rightarrow> rat option \<Rightarrow> error + rat" where
  "add_value acc v = (case v of None \<Rightarrow> Inl TypeError | Some x \<Rightarrow> Inr (acc + x))"

text \<open>One pass of the inner loop body:
  \<^verbatim>\<open>water_sum[k] += r[f"water_{k}"]; sediment_sum[k] += r[f"sediment_{k}"]\<close>.\<close>

definition add_key :: "shape_row \<Rightarrow> string \<Rightarrow> shape_sums \<times> shape_sums \<Rightarrow> error + shape_sums \<times> shape_sums" where
  "add_key r k st =
     (case st of (water_sum, sediment_sum) \<Rightarrow>
        and_then (dict_get water_sum k) (\<lambda>w.
        and_then (getitem r (''water_'' @ k)) (\<lambda>wv.
        and_then (add_value w wv) (\<lambda>w'.
        and_then (dict_get sediment_sum k) (\<lambda>s.
        and_then (getitem r (''sediment_'' @ k)) (\<lambda>sv.
        and_then (add_value s sv) (\<lambda>s'.
          Inr (AList.update k w' water_sum, AList.update k s' sediment_sum))))))))"

fun add_keys :: "string list \<Rightarrow> shape_row \<Rightarrow> shape_sums \<times> shape_sums \<Rightarrow> error + shape_sums \<times> shape_sums" where
  "add_keys [] r st = Inr st"
| "add_keys (k # ks) r st = and_then (add_key r k st) (add_keys ks r)"

definition shape_point :: "shape_row \<Rightarrow> json" where
  "shape_point r = JObj
     [(''station_code'', str_json (station_code r)),
      (''latitude'', num_json (latitude r)),
      (''longitude'', num_json (longitude r)),
      (''water'', JObj
         [(''fiber'', num_json (water_fiber r)),
          (''fragment'', num_json (water_fragment r)),
          (''film'', num_json (water_film r)),
          (''foam'', num_json (water_foam r)),
          (''pellet'', num_json (water_pellet r))]),
      (''sediment'', JObj
         [(''fiber'', num_json (sediment_fiber r)),
          (''fragment'', num_json (sediment_fragment r)),
          (''film'', num_json (sediment_film r)),
          (''foam'', num_json (sediment_foam r)),
          (''pellet'', num_json (sediment_pellet r))])]"

text \<open>The loop over the rows: append the point, then add the row to the sums, key by key
  in the order of the keys of \<^verbatim>\<open>water_sum\<close>.\<close>

fun shape_loop ::
  "shape_row list \<Rightarrow> json list \<times> shape_sums \<times> shape_sums \<Rightarrow> error + json list \<times> shape_sums \<times> shape_sums" where
  "shape_loop [] st = Inr st"
| "shape_loop (r # rows) (points, water_sum, sediment_sum) =
     and_then (add_keys (map fst water_sum) r (water_sum, sediment_sum))
       (\<lambda>(water_sum', sediment_sum'). shape_loop rows (points @ [shape_point r], water_sum', sediment_sum'))"

text \<open>
  The expression \<^verbatim>\<open>round(total / n, 2)\<close> is evaluated in the arithmetic of the values that
  the database driver returns: decimal arithmetic for \<^verbatim>\<open>NUMERIC\<close> columns, binary floating
  point for \<^verbatim>\<open>INTEGER\<close> and \<^verbatim>\<open>DOUBLE PRECISION\<close> columns. The shape tables are not declared
  in the repository, so the operation is the parameter \<open>round_div\<close> of the endpoint:
  \<open>round_div total n\<close> is the value of \<^verbatim>\<open>round(total / n, 2)\<close>.
\<close>

type_synonym round_div = "rat \<Rightarrow> nat \<Rightarrow> rat"

text \<open>The dictionary comprehension \<^verbatim>\<open>{k: round(d[k] / n, 2) for k in d}\<close>.\<close>

definition averages :: "round_div \<Rightarrow> shape_sums \<Rightarrow> nat \<Rightarrow> json" where
  "averages round_div d n = JObj (map (\<lambda>(k, v). (k, JNum (round_div v n))) d)"

definition get_estuary_shape :: "round_div \<Rightarrow> string \<Rightarrow> shape_row list \<Rightarrow> error + json" where
  "get_estuary_shape round_div estuary rows =
     (if rows = [] then
        Inr (JObj [(''estuary'', JStr estuary), (''points'', JArr []), (''average'', JObj [])])
      else
        and_then (shape_loop rows ([], zero_sums, zero_sums))
          (\<lambda>(points, water_sum, sediment_sum).
             let n = length rows;
                 average = JObj [(''water'', averages round_div water_sum n),
                                 (''sediment'', averages round_div sediment_sum n)]
             in Inr (JObj [(''estuary'', JStr estuary),
                           (''points'', JArr points),
                           (''average'', average)])))"

text \<open>Whether one of the ten shape values of a row is null, and the entry of the returned
  average for a medium and a shape (none when the endpoint raised).\<close>

definition has_null :: "shape_row \<Rightarrow> bool" where
  "has_null r \<longleftrightarrow>
     water_fiber r = None \<or> water_fragment r = None \<or> water_film r = None
     \<or> water_foam r = None \<or> water_pellet r = None
     \<or> sediment_fiber r = None \<or> sediment_fragment r = None \<or> sediment_film r = None
     \<or> sediment_foam r = None \<or> sediment_pellet r = None"

definition average_of :: "error + json \<Rightarrow> string \<Rightarrow> string \<Rightarrow> json option" where
  "average_of res medium k =
     (case res of Inl e \<Rightarrow> None | Inr resp \<Rightarrow> json_path resp [''average'', medium, k])"

definition sums5 :: "rat \<Rightarrow> rat \<Rightarrow> rat \<Rightarrow> rat \<Rightarrow> rat \<Rightarrow> shape_sums" where
  "sums5 a b c d e =
     [(''fiber'', a), (''fragment'', b), (''film'', c), (''foam'', d), (''pellet'', e)]"

section \<open>All survey points: \<^verbatim>\<open>GET /survey-points\<close>\<close>







section \<open>GeoJSON export: \<^verbatim>\<open>GET /survey/points/geojson\<close>\<close>

text \<open>
  The query of the endpoint aggregates the whole table in the database:
  \<^verbatim>\<open>SELECT jsonb_build_object('type', 'FeatureCollection', 'features', jsonb_agg(
      jsonb_build_object('type', 'Feature', 'geometry', ST_AsGeoJSON(geom)::jsonb,
                         'properties', to_jsonb(survey_points) - 'geom')))
    AS geojson FROM survey.survey_points;\<close>
  A row of the table enters it through two JSON values, its geometry and its properties.
\<close>

record geo_row =
  geometry :: json
  properties :: json

text \<open>
  PostgreSQL's \<^verbatim>\<open>jsonb_agg\<close> collects its input values into a JSON array; like every
  aggregate but \<^verbatim>\<open>count\<close> it is SQL \<^verbatim>\<open>NULL\<close> (here \<open>None\<close>) when there is no input row.
  \<^verbatim>\<open>jsonb_build_object\<close> builds an object from keys and values, writing JSON null for a
  value that is SQL \<^verbatim>\<open>NULL\<close>.
\<close>

definition jsonb_agg :: "json list \<Rightarrow> json option" where
  "jsonb_agg xs = (if xs = [] then None else Some (JArr xs))"

definition jsonb_build_object :: "(string \<times> json option) list \<Rightarrow> json" where
  "jsonb_build_object kvs =
     JObj (map (\<lambda>(k, v). (k, case v of None \<Rightarrow> JNull | Some j \<Rightarrow> j)) kvs)"

definition feature :: "geo_row \<Rightarrow> json" where
  "feature r = jsonb_build_object
     [(''type'', Some (JStr ''Feature'')),
      (''geometry'', Some (geometry r)),
      (''properties'', Some (properties r))]"

text \<open>The result set of the query: a \<^verbatim>\<open>SELECT\<close> of an aggregate without \<^verbatim>\<open>GROUP BY\<close> has
  exactly one row, also over an empty table.\<close>

definition geojson_query :: "geo_row list \<Rightarrow> json list" where
  "geojson_query survey_points =
     [jsonb_build_object
        [(''type'', Some (JStr ''FeatureCollection'')),
         (''features'', jsonb_agg (map feature survey_points))]]"

text \<open>\<^verbatim>\<open>Result.scalar()\<close>: the first column of the first row, \<^verbatim>\<open>None\<close> if there is no row.\<close>

definition scalar :: "json list \<Rightarrow> json" where
  "scalar result_rows = (case result_rows of [] \<Rightarrow> JNull | x # _ \<Rightarrow> x)"

text \<open>The Python of the endpoint after the query: the guard \<^verbatim>\<open>if not result\<close> and the
  response.\<close>

definition geojson_response :: "json \<Rightarrow> json" where
  "geojson_response result =
     (if \<not> truthy result
      then JObj [(''type'', JStr ''FeatureCollection''), (''features'', JArr [])]
      else result)"

definition get_points_geojson :: "geo_row list \<Rightarrow> json" where
  "get_points_geojson survey_points = geojson_response (scalar (geojson_query survey_points))"

section \<open>Properties\<close>

lemma foldl_append_each: "foldl (\<lambda>points r. points @ [f r]) acc rows = acc @ map f rows"
  by (induction rows arbitrary: acc) simp_all

lemma append_each_map: "append_each f rows = map f rows"
  by (simp add: append_each_def foldl_append_each)

text \<open>
  Claim C5. Whenever the abundance query returns no row for the estuary name, the abundance
  endpoint returns the object \<^verbatim>\<open>{"error": "No points found"}\<close> as an ordinary response.
\<close>

theorem get_estuary_data_no_rows:
  "get_estuary_data estuary_name [] = JObj [(''error'', JStr ''No points found'')]"
  by (simp add: get_estuary_data_def)

text \<open>
  Claim C10. Whenever the query returns no row, the color endpoint and the size endpoint
  each return \<^verbatim>\<open>{"estuary": name, "points": []}\<close>, which has neither an \<^verbatim>\<open>"error"\<close> nor an
  \<^verbatim>\<open>"average"\<close> key.
\<close>

theorem color_size_no_rows:
  "get_estuary_color estuary [] = JObj [(''estuary'', JStr estuary), (''points'', JArr [])]
   \<and> get_size_distribution estuary [] = JObj [(''estuary'', JStr estuary), (''points'', JArr [])]
   \<and> obj_get (get_estuary_color estuary []) ''error'' = None
   \<and> obj_get (get_estuary_color estuary []) ''average'' = None
   \<and> obj_get (get_size_distribution estuary []) ''error'' = None
   \<and> obj_get (get_size_distribution estuary []) ''average'' = None"
  by (simp add: get_estuary_color_def get_size_distribution_def append_each_def)

lemma sum_list_nonnull:
  "sum_list (map (\<lambda>r. the (f r)) (filter (\<lambda>r. f r \<noteq> None) rows)) =
     (\<Sum>r\<leftarrow>rows. case f r of None \<Rightarrow> 0 | Some v \<Rightarrow> (v::rat))"
  by (induction rows) (auto split: option.split)

lemma filter_nonnull_empty:
  "filter (\<lambda>r. f r \<noteq> None) rows = [] \<longleftrightarrow> (\<forall>r\<in>set rows. f r = None)"
  by (induction rows) auto

text \<open>
  Claim C4. For a non-empty result set, each of the two averages of the abundance endpoint is
  the sum of the non-null values of its column divided by the number of rows whose value is
  not null, and it is null exactly when every value of the column is null.
\<close>

theorem get_estuary_data_averages:
  assumes "rows \<noteq> []"
  shows "obj_get (get_estuary_data estuary_name rows) ''average_water_abundance'' =
           Some (if \<forall>r\<in>set rows. water_abundance r = None then JNull
                 else JNum ((\<Sum>r\<leftarrow>rows. case water_abundance r of None \<Rightarrow> 0 | Some v \<Rightarrow> v)
                            / of_nat (length (filter (\<lambda>r. water_abundance r \<noteq> None) rows))))
       \<and> obj_get (get_estuary_data estuary_name rows) ''average_sediment_abundance'' =
           Some (if \<forall>r\<in>set rows. sediment_abundance r = None then JNull
                 else JNum ((\<Sum>r\<leftarrow>rows. case sediment_abundance r of None \<Rightarrow> 0 | Some v \<Rightarrow> v)
                            / of_nat (length (filter (\<lambda>r. sediment_abundance r \<noteq> None) rows))))
       \<and> (obj_get (get_estuary_data estuary_name rows) ''average_water_abundance'' = Some JNull
            \<longleftrightarrow> (\<forall>r\<in>set rows. water_abundance r = None))
       \<and> (obj_get (get_estuary_data estuary_name rows) ''average_sediment_abundance'' = Some JNull
            \<longleftrightarrow> (\<forall>r\<in>set rows. sediment_abundance r = None))"
proof -
  have w: "filter (\<lambda>r. water_abundance r \<noteq> None) rows = []
             \<longleftrightarrow> (\<forall>r\<in>set rows. water_abundance r = None)"
    by (rule filter_nonnull_empty)
  have s: "filter (\<lambda>r. sediment_abundance r \<noteq> None) rows = []
             \<longleftrightarrow> (\<forall>r\<in>set rows. sediment_abundance r = None)"
    by (rule filter_nonnull_empty)
  show ?thesis
    using assms
    by (simp add: get_estuary_data_def Let_def sum_list_nonnull w s del: not_None_eq)
qed

theorem get_estuary_data_averages_witness:
  "(let rows =
      [\<lparr>station_code = Some ''Z1'', latitude = Some 15, longitude = Some 73, point_id = 1,
        water_abundance = None, sediment_abundance = None\<rparr>,
       \<lparr>station_code = Some ''Z2'', latitude = Some 15, longitude = Some 74, point_id = 2,
        water_abundance = Some 4, sediment_abundance = None\<rparr>,
       \<lparr>station_code = Some ''Z3'', latitude = None, longitude = None, point_id = 3,
        water_abundance = Some 7, sediment_abundance = None\<rparr>]
    in rows \<noteq> []
       \<and> obj_get (get_estuary_data ''Zuari'' rows) ''average_water_abundance'' = Some (JNum (11 / 2))
       \<and> obj_get (get_estuary_data ''Zuari'' rows) ''average_sediment_abundance'' = Some JNull)"
  using get_estuary_data_averages [of
      "[\<lparr>station_code = Some ''Z1'', latitude = Some 15, longitude = Some 73, point_id = 1,
        water_abundance = None, sediment_abundance = None\<rparr>,
       \<lparr>station_code = Some ''Z2'', latitude = Some 15, longitude = Some 74, point_id = 2,
        water_abundance = Some 4, sediment_abundance = None\<rparr>,
       \<lparr>station_code = Some ''Z3'', latitude = None, longitude = None, point_id = 3,
        water_abundance = Some 7, sediment_abundance = None\<rparr>]" "''Zuari''"]
  by (simp add: Let_def)

lemma or_0_eq: "or_0 v = JNum (case v of None \<Rightarrow> 0 | Some x \<Rightarrow> x)"
  by (simp add: or_0_def num_json_def split: option.split)

lemma size_point_paths:
  "json_path (size_point r) [''water'', ''lt_1mm''] = Some (or_0 (w_lt_1mm r))"
  "json_path (size_point r) [''water'', ''mm_1_to_2_5''] = Some (or_0 (w_mm_1_to_2_5 r))"
  "json_path (size_point r) [''water'', ''mm_2_5_to_5''] = Some (or_0 (w_mm_2_5_to_5 r))"
  "json_path (size_point r) [''sediment'', ''lt_1mm''] = Some (or_0 (s_lt_1mm r))"
  "json_path (size_point r) [''sediment'', ''mm_1_to_2_5''] = Some (or_0 (s_mm_1_to_2_5 r))"
  "json_path (size_point r) [''sediment'', ''mm_2_5_to_5''] = Some (or_0 (s_mm_2_5_to_5 r))"
  by (simp_all add: size_point_def)

lemma color_point_paths:
  "json_path (color_point r) [''water'', ''black''] = Some (num_json (w_black r))"
  "json_path (color_point r) [''water'', ''red''] = Some (num_json (w_red r))"
  "json_path (color_point r) [''water'', ''blue''] = Some (num_json (w_blue r))"
  "json_path (color_point r) [''water'', ''yellow''] = Some (num_json (w_yellow r))"
  "json_path (color_point r) [''water'', ''grey''] = Some (num_json (w_grey r))"
  "json_path (color_point r) [''water'', ''white''] = Some (num_json (w_white r))"
  "json_path (color_point r) [''water'', ''green''] = Some (num_json (w_green r))"
  "json_path (color_point r) [''water'', ''orange''] = Some (num_json (w_orange r))"
  "json_path (color_point r) [''water'', ''brown''] = Some (num_json (w_brown r))"
  "json_path (color_point r) [''water'', ''transparent''] = Some (num_json (w_transparent r))"
  "json_path (color_point r) [''sediment'', ''black''] = Some (num_json (s_black r))"
  "json_path (color_point r) [''sediment'', ''red''] = Some (num_json (s_red r))"
  "json_path (color_point r) [''sediment'', ''blue''] = Some (num_json (s_blue r))"
  "json_path (color_point r) [''sediment'', ''yellow''] = Some (num_json (s_yellow r))"
  "json_path (color_point r) [''sediment'', ''grey''] = Some (num_json (s_grey r))"
  "json_path (color_point r) [''sediment'', ''white''] = Some (num_json (s_white r))"
  "json_path (color_point r) [''sediment'', ''green''] = Some (num_json (s_green r))"
  "json_path (color_point r) [''sediment'', ''orange''] = Some (num_json (s_orange r))"
  "json_path (color_point r) [''sediment'', ''brown''] = Some (num_json (s_brown r))"
  "json_path (color_point r) [''sediment'', ''transparent''] = Some (num_json (s_transparent r))"
  by (simp_all add: color_point_def)

lemma points_of_size: "points_of (get_size_distribution estuary rows) = map size_point rows"
  by (simp add: points_of_def get_size_distribution_def append_each_map)

lemma points_of_color: "points_of (get_estuary_color estuary rows) = map color_point rows"
  by (simp add: points_of_def get_estuary_color_def append_each_map)

text \<open>
  Claim C7. The size endpoint returns one point per row, and in every point each of the three
  water and the three sediment size buckets is a number, never null: the bucket of the row
  where the row has one, and 0 where the row has null.
\<close>

theorem size_nulls_default_to_zero:
  "length (points_of (get_size_distribution estuary rows)) = length rows
   \<and> (\<forall>i<length rows.
        let r = rows ! i; p = points_of (get_size_distribution estuary rows) ! i in
          json_path p [''water'', ''lt_1mm''] = Some (JNum (case w_lt_1mm r of None \<Rightarrow> 0 | Some x \<Rightarrow> x))
          \<and> json_path p [''water'', ''mm_1_to_2_5''] = Some (JNum (case w_mm_1_to_2_5 r of None \<Rightarrow> 0 | Some x \<Rightarrow> x))
          \<and> json_path p [''water'', ''mm_2_5_to_5''] = Some (JNum (case w_mm_2_5_to_5 r of None \<Rightarrow> 0 | Some x \<Rightarrow> x))
          \<and> json_path p [''sediment'', ''lt_1mm''] = Some (JNum (case s_lt_1mm r of None \<Rightarrow> 0 | Some x \<Rightarrow> x))
          \<and> json_path p [''sediment'', ''mm_1_to_2_5''] = Some (JNum (case s_mm_1_to_2_5 r of None \<Rightarrow> 0 | Some x \<Rightarrow> x))
          \<and> json_path p [''sediment'', ''mm_2_5_to_5''] = Some (JNum (case s_mm_2_5_to_5 r of None \<Rightarrow> 0 | Some x \<Rightarrow> x))
          \<and> json_path p [''water'', ''lt_1mm''] \<noteq> Some JNull
          \<and> json_path p [''water'', ''mm_1_to_2_5''] \<noteq> Some JNull
          \<and> json_path p [''water'', ''mm_2_5_to_5''] \<noteq> Some JNull
          \<and> json_path p [''sediment'', ''lt_1mm''] \<noteq> Some JNull
          \<and> json_path p [''sediment'', ''mm_1_to_2_5''] \<noteq> Some JNull
          \<and> json_path p [''sediment'', ''mm_2_5_to_5''] \<noteq> Some JNull)"
  by (simp add: points_of_size size_point_paths or_0_eq Let_def del: json_path.simps)

theorem size_nulls_default_to_zero_witness:
  "(let r = \<lparr>station_code = Some ''Z1'', latitude = Some 15, longitude = None,
              w_lt_1mm = None, w_mm_1_to_2_5 = Some 7, w_mm_2_5_to_5 = Some 0,
              s_lt_1mm = None, s_mm_1_to_2_5 = None, s_mm_2_5_to_5 = Some (5 / 2)\<rparr>;
        p = points_of (get_size_distribution ''Zuari'' [r]) ! 0 in
      json_path p [''water'', ''lt_1mm''] = Some (JNum 0)
      \<and> json_path p [''water'', ''mm_1_to_2_5''] = Some (JNum 7)
      \<and> json_path p [''water'', ''mm_2_5_to_5''] = Some (JNum 0)
      \<and> json_path p [''sediment'', ''lt_1mm''] = Some (JNum 0)
      \<and> json_path p [''sediment'', ''mm_1_to_2_5''] = Some (JNum 0)
      \<and> json_path p [''sediment'', ''mm_2_5_to_5''] = Some (JNum (5 / 2)))"
  using size_nulls_default_to_zero [of "''Zuari''"
      "[\<lparr>station_code = Some ''Z1'', latitude = Some 15, longitude = None,
              w_lt_1mm = None, w_mm_1_to_2_5 = Some 7, w_mm_2_5_to_5 = Some 0,
              s_lt_1mm = None, s_mm_1_to_2_5 = None, s_mm_2_5_to_5 = Some (5 / 2)\<rparr>]"]
  by (simp add: Let_def)

text \<open>
  Claim C8. The color endpoint returns one point per row, and in every point each of the ten
  water and the ten sediment colors is the value of the row's column: null where the row has
  null, the row's number otherwise. No null is replaced by 0 or by anything else.
\<close>

theorem color_nulls_pass_through:
  "length (points_of (get_estuary_color estuary rows)) = length rows
   \<and> (\<forall>i<length rows.
        let r = rows ! i; p = points_of (get_estuary_color estuary rows) ! i in
          json_path p [''water'', ''black''] = Some (case w_black r of None \<Rightarrow> JNull | Some x \<Rightarrow> JNum x)
          \<and> json_path p [''water'', ''red''] = Some (case w_red r of None \<Rightarrow> JNull | Some x \<Rightarrow> JNum x)
          \<and> json_path p [''water'', ''blue''] = Some (case w_blue r of None \<Rightarrow> JNull | Some x \<Rightarrow> JNum x)
          \<and> json_path p [''water'', ''yellow''] = Some (case w_yellow r of None \<Rightarrow> JNull | Some x \<Rightarrow> JNum x)
          \<and> json_path p [''water'', ''grey''] = Some (case w_grey r of None \<Rightarrow> JNull | Some x \<Rightarrow> JNum x)
          \<and> json_path p [''water'', ''white''] = Some (case w_white r of None \<Rightarrow> JNull | Some x \<Rightarrow> JNum x)
          \<and> json_path p [''water'', ''green''] = Some (case w_green r of None \<Rightarrow> JNull | Some x \<Rightarrow> JNum x)
          \<and> json_path p [''water'', ''orange''] = Some (case w_orange r of None \<Rightarrow> JNull | Some x \<Rightarrow> JNum x)
          \<and> json_path p [''water'', ''brown''] = Some (case w_brown r of None \<Rightarrow> JNull | Some x \<Rightarrow> JNum x)
          \<and> json_path p [''water'', ''transparent''] = Some (case w_transparent r of None \<Rightarrow> JNull | Some x \<Rightarrow> JNum x)
          \<and> json_path p [''sediment'', ''black''] = Some (case s_black r of None \<Rightarrow> JNull | Some x \<Rightarrow> JNum x)
          \<and> json_path p [''sediment'', ''red''] = Some (case s_red r of None \<Rightarrow> JNull | Some x \<Rightarrow> JNum x)
          \<and> json_path p [''sediment'', ''blue''] = Some (case s_blue r of None \<Rightarrow> JNull | Some x \<Rightarrow> JNum x)
          \<and> json_path p [''sediment'', ''yellow''] = Some (case s_yellow r of None \<Rightarrow> JNull | Some x \<Rightarrow> JNum x)
          \<and> json_path p [''sediment'', ''grey''] = Some (case s_grey r of None \<Rightarrow> JNull | Some x \<Rightarrow> JNum x)
          \<and> json_path p [''sediment'', ''white''] = Some (case s_white r of None \<Rightarrow> JNull | Some x \<Rightarrow> JNum x)
          \<and> json_path p [''sediment'', ''green''] = Some (case s_green r of None \<Rightarrow> JNull | Some x \<Rightarrow> JNum x)
          \<and> json_path p [''sediment'', ''orange''] = Some (case s_orange r of None \<Rightarrow> JNull | Some x \<Rightarrow> JNum x)
          \<and> json_path p [''sediment'', ''brown''] = Some (case s_brown r of None \<Rightarrow> JNull | Some x \<Rightarrow> JNum x)
          \<and> json_path p [''sediment'', ''transparent''] = Some (case s_transparent r of None \<Rightarrow> JNull | Some x \<Rightarrow> JNum x))"
  by (simp add: points_of_color color_point_paths num_json_def Let_def del: json_path.simps)

theorem color_nulls_pass_through_witness:
  "(let r = \<lparr>station_code = Some ''Z1'', latitude = Some 15, longitude = None,
              w_black = None, w_red = Some 3, w_blue = None, w_yellow = None, w_grey = None,
              w_white = None, w_green = None, w_orange = None, w_brown = None,
              w_transparent = Some 0,
              s_black = None, s_red = None, s_blue = None, s_yellow = None, s_grey = None,
              s_white = None, s_green = None, s_orange = None, s_brown = None,
              s_transparent = None\<rparr>;
        p = points_of (get_estuary_color ''Zuari'' [r]) ! 0 in
      json_path p [''water'', ''black''] = Some JNull
      \<and> json_path p [''water'', ''red''] = Some (JNum 3)
      \<and> json_path p [''water'', ''transparent''] = Some (JNum 0)
      \<and> json_path p [''sediment'', ''black''] = Some JNull
      \<and> json_path p [''sediment'', ''transparent''] = Some JNull)"
  using color_nulls_pass_through [of "''Zuari''"
      "[\<lparr>station_code = Some ''Z1'', latitude = Some 15, longitude = None,
              w_black = None, w_red = Some 3, w_blue = None, w_yellow = None, w_grey = None,
              w_white = None, w_green = None, w_orange = None, w_brown = None,
              w_transparent = Some 0,
              s_black = None, s_red = None, s_blue = None, s_yellow = None, s_grey = None,
              s_white = None, s_green = None, s_orange = None, s_brown = None,
              s_transparent = None\<rparr>]"]
  by (simp add: Let_def)

lemma map_fst_sums5: "map fst (sums5 a b c d e) = [''fiber'', ''fragment'', ''film'', ''foam'', ''pellet'']"
  by (simp add: sums5_def)

lemma add_key_fiber:
  "add_key r ''fiber'' (sums5 a b c d e, sums5 a' b' c' d' e') =
     (case water_fiber r of None \<Rightarrow> Inl TypeError | Some w \<Rightarrow>
      case sediment_fiber r of None \<Rightarrow> Inl TypeError | Some s \<Rightarrow>
        Inr (sums5 (a + w) b c d e, sums5 (a' + s) b' c' d' e'))"
  by (simp add: add_key_def and_then_def dict_get_def getitem_def add_value_def sums5_def
      split: option.split)

lemma add_key_fragment:
  "add_key r ''fragment'' (sums5 a b c d e, sums5 a' b' c' d' e') =
     (case water_fragment r of None \<Rightarrow> Inl TypeError | Some w \<Rightarrow>
      case sediment_fragment r of None \<Rightarrow> Inl TypeError | Some s \<Rightarrow>
        Inr (sums5 a (b + w) c d e, sums5 a' (b' + s) c' d' e'))"
  by (simp add: add_key_def and_then_def dict_get_def getitem_def add_value_def sums5_def
      split: option.split)

lemma add_key_film:
  "add_key r ''film'' (sums5 a b c d e, sums5 a' b' c' d' e') =
     (case water_film r of None \<Rightarrow> Inl TypeError | Some w \<Rightarrow>
      case sediment_film r of None \<Rightarrow> Inl TypeError | Some s \<Rightarrow>
        Inr (sums5 a b (c + w) d e, sums5 a' b' (c' + s) d' e'))"
  by (simp add: add_key_def and_then_def dict_get_def getitem_def add_value_def sums5_def
      split: option.split)

lemma add_key_foam:
  "add_key r ''foam'' (sums5 a b c d e, sums5 a' b' c' d' e') =
     (case water_foam r of None \<Rightarrow> Inl TypeError | Some w \<Rightarrow>
      case sediment_foam r of None \<Rightarrow> Inl TypeError | Some s \<Rightarrow>
        Inr (sums5 a b c (d + w) e, sums5 a' b' c' (d' + s) e'))"
  by (simp add: add_key_def and_then_def dict_get_def getitem_def add_value_def sums5_def
      split: option.split)

lemma add_key_pellet:
  "add_key r ''pellet'' (sums5 a b c d e, sums5 a' b' c' d' e') =
     (case water_pellet r of None \<Rightarrow> Inl TypeError | Some w \<Rightarrow>
      case sediment_pellet r of None \<Rightarrow> Inl TypeError | Some s \<Rightarrow>
        Inr (sums5 a b c d (e + w), sums5 a' b' c' d' (e' + s)))"
  by (simp add: add_key_def and_then_def dict_get_def getitem_def add_value_def sums5_def
      split: option.split)

lemmas add_key_sums5 = add_key_fiber add_key_fragment add_key_film add_key_foam add_key_pellet

lemma add_keys_sums5:
  "add_keys [''fiber'', ''fragment'', ''film'', ''foam'', ''pellet''] r
           (sums5 a b c d e, sums5 a' b' c' d' e') =
     (if has_null r then Inl TypeError
      else Inr (sums5 (a + the (water_fiber r)) (b + the (water_fragment r))
                    (c + the (water_film r)) (d + the (water_foam r)) (e + the (water_pellet r)),
              sums5 (a' + the (sediment_fiber r)) (b' + the (sediment_fragment r))
                    (c' + the (sediment_film r)) (d' + the (sediment_foam r))
                    (e' + the (sediment_pellet r))))"
  by (simp add: add_key_sums5 and_then_def has_null_def split: option.split)

lemma shape_loop_sums5:
  "shape_loop rows (pts, sums5 a b c d e, sums5 a' b' c' d' e') =
     (if \<exists>r\<in>set rows. has_null r then Inl TypeError
      else Inr (pts @ map shape_point rows,
                sums5 (a + (\<Sum>r\<leftarrow>rows. the (water_fiber r)))
                      (b + (\<Sum>r\<leftarrow>rows. the (water_fragment r)))
                      (c + (\<Sum>r\<leftarrow>rows. the (water_film r)))
                      (d + (\<Sum>r\<leftarrow>rows. the (water_foam r)))
                      (e + (\<Sum>r\<leftarrow>rows. the (water_pellet r))),
                sums5 (a' + (\<Sum>r\<leftarrow>rows. the (sediment_fiber r)))
                      (b' + (\<Sum>r\<leftarrow>rows. the (sediment_fragment r)))
                      (c' + (\<Sum>r\<leftarrow>rows. the (sediment_film r)))
                      (d' + (\<Sum>r\<leftarrow>rows. the (sediment_foam r)))
                      (e' + (\<Sum>r\<leftarrow>rows. the (sediment_pellet r)))))"
proof (induction rows arbitrary: pts a b c d e a' b' c' d' e')
  case Nil
  show ?case by simp
next
  case (Cons r rows)
  show ?case
  proof (cases "has_null r")
    case True
    then show ?thesis
      by (simp add: map_fst_sums5 add_keys_sums5 and_then_def del: add_keys.simps)
  next
    case False
    then show ?thesis
      by (simp add: map_fst_sums5 add_keys_sums5 and_then_def Cons.IH add.assoc del: add_keys.simps)
  qed
qed

lemma zero_sums5: "zero_sums = sums5 0 0 0 0 0"
  by (simp add: zero_sums_def sums5_def)

lemma averages_sums5:
  "averages round_div (sums5 a b c d e) n = JObj
     [(''fiber'', JNum (round_div a n)),
      (''fragment'', JNum (round_div b n)),
      (''film'', JNum (round_div c n)),
      (''foam'', JNum (round_div d n)),
      (''pellet'', JNum (round_div e n))]"
  by (simp add: averages_def sums5_def)

lemma get_estuary_shape_rows:
  assumes "rows \<noteq> []"
  shows "get_estuary_shape round_div estuary rows =
     (if \<exists>r\<in>set rows. has_null r then Inl TypeError
      else Inr (JObj
        [(''estuary'', JStr estuary),
         (''points'', JArr (map shape_point rows)),
         (''average'', JObj
            [(''water'', averages round_div
                (sums5 (\<Sum>r\<leftarrow>rows. the (water_fiber r)) (\<Sum>r\<leftarrow>rows. the (water_fragment r))
                       (\<Sum>r\<leftarrow>rows. the (water_film r)) (\<Sum>r\<leftarrow>rows. the (water_foam r))
                       (\<Sum>r\<leftarrow>rows. the (water_pellet r))) (length rows)),
             (''sediment'', averages round_div
                (sums5 (\<Sum>r\<leftarrow>rows. the (sediment_fiber r)) (\<Sum>r\<leftarrow>rows. the (sediment_fragment r))
                       (\<Sum>r\<leftarrow>rows. the (sediment_film r)) (\<Sum>r\<leftarrow>rows. the (sediment_foam r))
                       (\<Sum>r\<leftarrow>rows. the (sediment_pellet r))) (length rows))])]))"
  using assms
  by (simp add: get_estuary_shape_def zero_sums5 shape_loop_sums5 and_then_def Let_def)

lemma get_estuary_shape_raises:
  "get_estuary_shape round_div estuary rows = Inl err
     \<longleftrightarrow> err = TypeError \<and> (\<exists>r\<in>set rows. has_null r)"
proof (cases "rows = []")
  case True
  then show ?thesis by (simp add: get_estuary_shape_def)
next
  case False
  then show ?thesis by (auto simp: get_estuary_shape_rows)
qed

text \<open>
  Claim C9. Whenever the three-way join returns no row, the shape endpoint returns the object
  \<^verbatim>\<open>{"estuary": name, "points": [], "average": {}}\<close>, whatever the arithmetic of the
  averages.
\<close>

theorem get_estuary_shape_no_rows:
  "get_estuary_shape round_div estuary [] =
     Inr (JObj [(''estuary'', JStr estuary), (''points'', JArr []), (''average'', JObj [])])"
  by (simp add: get_estuary_shape_def)

text \<open>
  Claim C2 says that a null shape value is left out of the numerator and of the denominator of
  its category's average, as the abundance endpoint leaves null abundances out. With one row
  whose water fiber count is null and one whose count is 4, the water fiber average of the
  claim is 4. The shape endpoint adds the null to the running sum, which raises
  \<^verbatim>\<open>TypeError\<close>: the request fails and no average is returned, whatever the arithmetic of
  the averages.
\<close>

theorem get_estuary_shape_null_not_excluded:
  "get_estuary_shape round_div ''Zuari''
      [\<lparr>station_code = Some ''Z1'', latitude = Some 15, longitude = Some 73,
        water_fiber = None, water_fragment = Some 1, water_film = Some 1,
        water_foam = Some 1, water_pellet = Some 1, sediment_fiber = Some 1,
        sediment_fragment = Some 1, sediment_film = Some 1,
        sediment_foam = Some 1, sediment_pellet = Some 1\<rparr>,
       \<lparr>station_code = Some ''Z2'', latitude = Some 15, longitude = Some 73,
        water_fiber = Some 4, water_fragment = Some 3, water_film = Some 3,
        water_foam = Some 3, water_pellet = Some 3, sediment_fiber = Some 3,
        sediment_fragment = Some 3, sediment_film = Some 3,
        sediment_foam = Some 3, sediment_pellet = Some 3\<rparr>] = Inl TypeError
   \<and> average_of (get_estuary_shape round_div ''Zuari''
      [\<lparr>station_code = Some ''Z1'', latitude = Some 15, longitude = Some 73,
        water_fiber = None, water_fragment = Some 1, water_film = Some 1,
        water_foam = Some 1, water_pellet = Some 1, sediment_fiber = Some 1,
        sediment_fragment = Some 1, sediment_film = Some 1,
        sediment_foam = Some 1, sediment_pellet = Some 1\<rparr>,
       \<lparr>station_code = Some ''Z2'', latitude = Some 15, longitude = Some 73,
        water_fiber = Some 4, water_fragment = Some 3, water_film = Some 3,
        water_foam = Some 3, water_pellet = Some 3, sediment_fiber = Some 3,
        sediment_fragment = Some 3, sediment_film = Some 3,
        sediment_foam = Some 3, sediment_pellet = Some 3\<rparr>]) ''water'' ''fiber'' \<noteq> Some (JNum 4)"
  by (simp add: average_of_def get_estuary_shape_def zero_sums_def and_then_def add_key_def dict_get_def
      getitem_def add_value_def shape_point_def num_json_def str_json_def Let_def)

text \<open>
  Claim C6 says that for every non-empty result set the returned average holds, for water
  and for sediment, each of the five shape categories with its rounded mean over all returned
  points. A result set of one row whose sediment pellet count is null is not empty, and the
  shape endpoint raises \<^verbatim>\<open>TypeError\<close> on it: the request fails, and there is no average
  for any category, whatever the arithmetic of the averages.
\<close>

theorem get_estuary_shape_null_no_average:
  "get_estuary_shape round_div ''Zuari''
      [\<lparr>station_code = Some ''Z1'', latitude = Some 15, longitude = Some 73,
        water_fiber = Some 1, water_fragment = Some 1, water_film = Some 1,
        water_foam = Some 1, water_pellet = Some 1, sediment_fiber = Some 1,
        sediment_fragment = Some 1, sediment_film = Some 1,
        sediment_foam = Some 1, sediment_pellet = None\<rparr>] = Inl TypeError
   \<and> average_of (get_estuary_shape round_div ''Zuari''
      [\<lparr>station_code = Some ''Z1'', latitude = Some 15, longitude = Some 73,
        water_fiber = Some 1, water_fragment = Some 1, water_film = Some 1,
        water_foam = Some 1, water_pellet = Some 1, sediment_fiber = Some 1,
        sediment_fragment = Some 1, sediment_film = Some 1,
        sediment_foam = Some 1, sediment_pellet = None\<rparr>]) ''water'' ''fiber'' = None
   \<and> average_of (get_estuary_shape round_div ''Zuari''
      [\<lparr>station_code = Some ''Z1'', latitude = Some 15, longitude = Some 73,
        water_fiber = Some 1, water_fragment = Some 1, water_film = Some 1,
        water_foam = Some 1, water_pellet = Some 1, sediment_fiber = Some 1,
        sediment_fragment = Some 1, sediment_film = Some 1,
        sediment_foam = Some 1, sediment_pellet = None\<rparr>]) ''sediment'' ''pellet'' = None"
  by (simp add: average_of_def get_estuary_shape_def zero_sums_def and_then_def add_key_def dict_get_def
      getitem_def add_value_def shape_point_def num_json_def str_json_def Let_def)

text \<open>The guard of the GeoJSON endpoint returns the empty collection for a falsy query
  result, such as \<^verbatim>\<open>None\<close>.\<close>

lemma geojson_response_falsy:
  "\<not> truthy result \<Longrightarrow>
     geojson_response result = JObj [(''type'', JStr ''FeatureCollection''), (''features'', JArr [])]"
  by (simp add: geojson_response_def)

text \<open>
  Claim C1 says that the GeoJSON export of an empty table is
  \<^verbatim>\<open>{"type": "FeatureCollection", "features": []}\<close> and never has a null \<^verbatim>\<open>features\<close>.
  Over an empty table the query still returns one row, the object whose \<^verbatim>\<open>features\<close> is
  null. That object is a non-empty dictionary, so the guard \<^verbatim>\<open>if not result\<close> does not
  fire, and the endpoint returns the object as it is, with null \<^verbatim>\<open>features\<close>.
\<close>

theorem get_points_geojson_empty_table:
  "get_points_geojson [] = JObj [(''type'', JStr ''FeatureCollection''), (''features'', JNull)]
   \<and> get_points_geojson [] \<noteq> JObj [(''type'', JStr ''FeatureCollection''), (''features'', JArr [])]
   \<and> obj_get (get_points_geojson []) ''features'' = Some JNull"
  by (simp add: get_points_geojson_def geojson_response_def scalar_def geojson_query_def
      jsonb_build_object_def jsonb_agg_def)




end
